theory Spec2Isabelle
  imports Complex_Main
begin

section \<open>Python values used by both schedulers\<close>

text \<open>
  The repository holds two scripts, \<^verbatim>\<open>scripts/discord_notifier.py\<close> (one chat channel,
  ledger mirrored to a file) and \<^verbatim>\<open>scripts/mail_scheduler.py\<close> (one e-mail per matching
  student, ledger in memory only). Both poll the same kind of tables once a minute.

  A \<^verbatim>\<open>datetime\<close> is the number of microseconds on one common time line, a
  \<^verbatim>\<open>timedelta\<close> a difference of two of them. \<^verbatim>\<open>total_seconds()\<close> divides by
  \<open>10^6\<close>; the comparisons the scripts make with it (against 0, 600, 3600 and 86400)
  come out the same on Python's floats as on the rationals used here.
\<close>

type_synonym datetime = int
type_synonym timedelta = int

definition total_seconds :: "timedelta \<Rightarrow> rat" where
  "total_seconds d = of_int d / 1000000"

definition timedelta_hours :: "nat \<Rightarrow> timedelta" where
  "timedelta_hours h = int h * 3600000000"

text \<open>
  A Python \<^verbatim>\<open>str\<close> is the list of its code points, so that \<^verbatim>\<open>len\<close> counts what
  Python counts. \<open>u\<close> writes an ASCII literal as such a list.
\<close>

type_synonym pystr = "nat list"

definition u :: "string \<Rightarrow> pystr" where
  "u s = map of_char s"

definition LF :: nat where
  "LF = 10"

definition CR :: nat where
  "CR = 13"

text \<open>
  \<^verbatim>\<open>str.strip()\<close> removes from both ends the code points Python counts as white space:
  U+0009 to U+000D, U+001C to U+0020, U+0085, U+00A0, U+1680, U+2000 to U+200A, U+2028,
  U+2029, U+202F, U+205F and U+3000.
\<close>

definition isspace :: "nat \<Rightarrow> bool" where
  "isspace c =
     ((9 \<le> c \<and> c \<le> 13) \<or> (28 \<le> c \<and> c \<le> 32) \<or> c = 133 \<or> c = 160 \<or> c = 5760
      \<or> (8192 \<le> c \<and> c \<le> 8202) \<or> c = 8232 \<or> c = 8233 \<or> c = 8239 \<or> c = 8287
      \<or> c = 12288)"

definition strip :: "pystr \<Rightarrow> pystr" where
  "strip s = dropWhile isspace (rev (dropWhile isspace (rev s)))"

text \<open>The decimal text \<^verbatim>\<open>str()\<close> and an f-string give an integer.\<close>

fun str_nat :: "nat \<Rightarrow> pystr" where
  "str_nat n = (if n < 10 then [48 + n] else str_nat (n div 10) @ [48 + n mod 10])"

declare str_nat.simps [simp del]

definition str_int :: "int \<Rightarrow> pystr" where
  "str_int i = (if i < 0 then u ''-'' @ str_nat (nat (- i)) else str_nat (nat i))"

text \<open>
  What Python's library does is taken as given: \<open>py_strptime\<close> is \<^verbatim>\<open>datetime.strptime\<close>
  with the format \<^verbatim>\<open>%Y-%m-%d %H:%M\<close> (\<open>None\<close> is its \<^verbatim>\<open>ValueError\<close>), \<open>py_lower\<close> is
  \<^verbatim>\<open>str.lower\<close> on all of Unicode, \<open>py_float_str\<close> is \<^verbatim>\<open>str()\<close> of a float.
\<close>

record pylib =
  py_strptime :: "pystr \<Rightarrow> datetime option"
  py_lower :: "pystr \<Rightarrow> pystr"
  py_float_str :: "rat \<Rightarrow> pystr"

text \<open>
  A cell of the \<^verbatim>\<open>year\<close> column as pandas hands it over: an integer, a float (an integer
  column with a NULL in it is read as floats), a text, \<^verbatim>\<open>None\<close> or NaN. \<open>py_eq\<close> is
  \<^verbatim>\<open>==\<close> as the comparison of a column with a scalar applies it: numbers compare by value,
  texts by their characters, a number never equals a text, and \<^verbatim>\<open>None\<close> and NaN equal
  nothing.
\<close>

datatype pyval = PInt int | PFloat rat | PStr pystr | PNone | PNaN

fun py_eq :: "pyval \<Rightarrow> pyval \<Rightarrow> bool" where
  "py_eq (PInt a) (PInt b) = (a = b)"
| "py_eq (PInt a) (PFloat b) = (of_int a = b)"
| "py_eq (PFloat a) (PInt b) = (a = of_int b)"
| "py_eq (PFloat a) (PFloat b) = (a = b)"
| "py_eq (PStr a) (PStr b) = (a = b)"
| "py_eq _ _ = False"

fun py_str :: "pylib \<Rightarrow> pyval \<Rightarrow> pystr" where
  "py_str py (PInt i) = str_int i"
| "py_str py (PFloat q) = py_float_str py q"
| "py_str py (PStr s) = s"
| "py_str py PNone = u ''None''"
| "py_str py PNaN = u ''nan''"

text \<open>
  The exceptions that matter: \<^verbatim>\<open>ValueError\<close> and \<^verbatim>\<open>TypeError\<close> at start-up,
  a database error from \<^verbatim>\<open>sqlite3\<close>/\<^verbatim>\<open>pandas\<close>, an \<^verbatim>\<open>OSError\<close> or a
  \<^verbatim>\<open>UnicodeEncodeError\<close> from writing the ledger file.
\<close>

datatype exn = ValueError | TypeError | DatabaseError | OSError | UnicodeEncodeError

section \<open>Rows of the data store\<close>

text \<open>
  The columns are the ones \<^verbatim>\<open>mail_scheduler.py\<close> selects; \<^verbatim>\<open>discord_notifier.py\<close>
  reads the same tables with \<^verbatim>\<open>SELECT *\<close> and uses fewer of them. Course, batch, session or
  subject, date, time and mode are text columns; the year is a typed cell.
\<close>

record class_row =
  c_course :: pystr
  c_batch_name :: pystr
  c_year :: pyval
  c_session_name :: pystr
  c_date :: pystr
  c_time :: pystr
  c_mode :: pystr

record assignment_row =
  a_course :: pystr
  a_batch_name :: pystr
  a_year :: pyval
  a_subject :: pystr
  a_due_date :: pystr
  a_mode :: pystr

record student =
  s_name :: pystr
  s_email :: pystr
  s_course :: pystr
  s_batch_name :: pystr
  s_year :: pyval
  s_mode :: pystr

section \<open>The ledger and the record of what was dispatched\<close>

text \<open>
  \<open>sent_reminders\<close> is the global set of the scripts. \<open>dispatches\<close> is the trace of the
  dispatch sites that ran, oldest first: each entry carries the reminder key of the site and
  what was handed to the channel there, together with the outcome of the transport.
\<close>

record 'd evaluator =
  sent_reminders :: "pystr set"
  dispatches :: "(pystr \<times> 'd) list"

definition add_key :: "pystr \<Rightarrow> 'd evaluator \<Rightarrow> 'd evaluator" where
  "add_key key st = st\<lparr>sent_reminders := insert key (sent_reminders st)\<rparr>"

definition dispatch :: "pystr \<Rightarrow> 'd \<Rightarrow> 'd evaluator \<Rightarrow> 'd evaluator" where
  "dispatch key d st = st\<lparr>dispatches := dispatches st @ [(key, d)]\<rparr>"

definition sent_for :: "pystr \<Rightarrow> 'd evaluator \<Rightarrow> (pystr \<times> 'd) list" where
  "sent_for key st = filter (\<lambda>d. fst d = key) (dispatches st)"

section \<open>discord\_notifier.py\<close>

subsection \<open>Start-up configuration\<close>

text \<open>
  \<open>environ\<close> is the process environment after \<^verbatim>\<open>load_dotenv()\<close>. Python's \<^verbatim>\<open>int()\<close>
  is a parameter: \<open>None\<close> is its \<^verbatim>\<open>ValueError\<close>. \<^verbatim>\<open>int(None)\<close> is a \<^verbatim>\<open>TypeError\<close>.
\<close>

type_synonym environ = "string \<rightharpoonup> string"

definition falsy :: "string option \<Rightarrow> bool" where
  "falsy v = (v = None \<or> v = Some [])"

record discord_config =
  TOKEN :: string
  CHANNEL_ID :: int
  DB_PATH :: string

definition discord_config :: "(string \<Rightarrow> int option) \<Rightarrow> environ \<Rightarrow> exn + discord_config" where
  "discord_config int_of environ =
     (let token = environ ''DISCORD_TOKEN'' in
      case environ ''DISCORD_CHANNEL_ID'' of
        None \<Rightarrow> Inl TypeError
      | Some s \<Rightarrow>
          (case int_of s of
             None \<Rightarrow> Inl ValueError
           | Some channel_id \<Rightarrow>
               (let db_path = environ ''DB_PATH'' in
                if falsy token \<or> channel_id = 0 \<or> falsy db_path then Inl ValueError
                else Inr \<lparr>TOKEN = the token, CHANNEL_ID = channel_id, DB_PATH = the db_path\<rparr>)))"

subsection \<open>The ledger file\<close>


fun universal_newlines :: "pystr \<Rightarrow> pystr" where
  "universal_newlines [] = []"
| "universal_newlines [c] = (if c = CR then [LF] else [c])"
| "universal_newlines (c # d # cs) =
     (if c = CR \<and> d = LF then LF # universal_newlines cs
      else if c = CR then LF # universal_newlines (d # cs)
      else c # universal_newlines (d # cs))"

fun readlines :: "pystr \<Rightarrow> pystr list" where
  "readlines [] = []"
| "readlines (c # cs) =
     (if c = LF then [LF] # readlines cs
      else (case readlines cs of
              [] \<Rightarrow> [[c]]
            | l # ls \<Rightarrow> (c # l) # ls))"

definition load_sent_log :: "pystr option \<Rightarrow> pystr set" where
  "load_sent_log file =
     (case file of
        Some content \<Rightarrow> set (map strip (readlines (universal_newlines content)))
      | None \<Rightarrow> {})"


subsection \<open>One row, one tick, the loop\<close>

text \<open>
  A message is the template that was filled and the values put into it; the text itself
  is not needed. \<^verbatim>\<open>send_reminder\<close> catches every exception of \<^verbatim>\<open>channel.send\<close>:
  \<open>channel_send\<close> tells whether the transport delivered, and the attempt is recorded
  either way.
\<close>

datatype discord_msg =
    ClassTomorrow pystr pystr pystr pystr
  | ClassInOneHour pystr pystr pystr pystr
  | AssignmentTomorrow pystr pystr pystr pystr
  | AssignmentInOneHour pystr pystr pystr pystr

type_synonym dstate = "(discord_msg \<times> bool) evaluator"

definition send_reminder ::
  "(discord_msg \<Rightarrow> bool) \<Rightarrow> pystr \<Rightarrow> discord_msg \<Rightarrow> dstate \<Rightarrow> dstate" where
  "send_reminder channel_send key msg st = dispatch key (msg, channel_send msg) st"

definition discord_class_key :: "class_row \<Rightarrow> pystr \<Rightarrow> pystr" where
  "discord_class_key row tag =
     u ''class-'' @ c_course row @ u ''-'' @ c_batch_name row @ u ''-'' @ c_session_name row
       @ u ''-'' @ c_date row @ u ''-'' @ tag"

definition discord_assign_key :: "assignment_row \<Rightarrow> pystr \<Rightarrow> pystr" where
  "discord_assign_key row tag =
     u ''assign-'' @ a_course row @ u ''-'' @ a_batch_name row @ u ''-'' @ a_subject row
       @ u ''-'' @ a_due_date row @ u ''-'' @ tag"

text \<open>
  The body of the loop over the class rows. The \<^verbatim>\<open>ValueError\<close> of \<^verbatim>\<open>strptime\<close> is
  caught by the \<^verbatim>\<open>except\<close> of the row.
\<close>

definition discord_class_row ::
  "pylib \<Rightarrow> (discord_msg \<Rightarrow> bool) \<Rightarrow> datetime \<Rightarrow> class_row \<Rightarrow> dstate \<Rightarrow> dstate" where
  "discord_class_row py channel_send now row st =
     (let class_date = c_date row; class_time = c_time row; class_course = c_course row;
          batch = c_batch_name row; class_name = c_session_name row
      in case py_strptime py (class_date @ u '' '' @ class_time) of
           None \<Rightarrow> st
         | Some class_datetime \<Rightarrow>
             (let key_24hr = discord_class_key row (u ''24hr'');
                  key_1hr = discord_class_key row (u ''1hr'');
                  seconds_until = total_seconds (class_datetime - now)
              in if 0 \<le> seconds_until - 86400 \<and> seconds_until - 86400 \<le> 600
                    \<and> key_24hr \<notin> sent_reminders st
                 then add_key key_24hr
                        (send_reminder channel_send key_24hr
                           (ClassTomorrow class_time class_name class_course batch) st)
                 else if 0 \<le> seconds_until - 3600 \<and> seconds_until - 3600 \<le> 600
                    \<and> key_1hr \<notin> sent_reminders st
                 then add_key key_1hr
                        (send_reminder channel_send key_1hr
                           (ClassInOneHour class_name class_course batch class_time) st)
                 else st))"

definition discord_assignment_row ::
  "pylib \<Rightarrow> (discord_msg \<Rightarrow> bool) \<Rightarrow> datetime \<Rightarrow> assignment_row \<Rightarrow> dstate \<Rightarrow> dstate" where
  "discord_assignment_row py channel_send now row st =
     (let due_date_str = a_due_date row
      in if due_date_str = [] \<or> py_lower py due_date_str = u ''nan'' then st
         else
           (let subject = a_subject row; course = a_course row; batch = a_batch_name row;
                due_time = u ''23:59''
            in case py_strptime py (due_date_str @ u '' '' @ due_time) of
                 None \<Rightarrow> st
               | Some due_datetime \<Rightarrow>
                   (let key_24hr = discord_assign_key row (u ''24hr'');
                        key_1hr = discord_assign_key row (u ''1hr'');
                        seconds_until = total_seconds (due_datetime - now)
                    in if 0 \<le> seconds_until - 86400 \<and> seconds_until - 86400 \<le> 600
                          \<and> key_24hr \<notin> sent_reminders st
                       then add_key key_24hr
                              (send_reminder channel_send key_24hr
                                 (AssignmentTomorrow subject course batch due_time) st)
                       else if 0 \<le> seconds_until - 3600 \<and> seconds_until - 3600 \<le> 600
                          \<and> key_1hr \<notin> sent_reminders st
                       then add_key key_1hr
                              (send_reminder channel_send key_1hr
                                 (AssignmentInOneHour subject course batch due_time) st)
                       else st)))"

text \<open>
  What one pass of the \<^verbatim>\<open>while\<close> loop meets outside the program: the clock, the two
  tables (or the exception of the query), the transport, and the exception of writing the
  ledger file, if any. The two queries and \<^verbatim>\<open>save_sent_log\<close> stand outside every
  \<^verbatim>\<open>try\<close>, so their exception leaves the pass; the ledger keeps what was added before.
\<close>

record denv =
  d_now :: datetime
  d_classes :: "exn + class_row list"
  d_assignments :: "exn + assignment_row list"
  d_channel_send :: "discord_msg \<Rightarrow> bool"
  d_save :: "exn option"

definition discord_tick :: "pylib \<Rightarrow> denv \<Rightarrow> dstate \<Rightarrow> exn option \<times> dstate" where
  "discord_tick py env st =
     (let now = d_now env in
      case d_classes env of
        Inl e \<Rightarrow> (Some e, st)
      | Inr df_classes \<Rightarrow>
          (let st1 = (if df_classes \<noteq> []
                      then fold (discord_class_row py (d_channel_send env) now) df_classes st
                      else st)
           in case d_assignments env of
                Inl e \<Rightarrow> (Some e, st1)
              | Inr df_assignments \<Rightarrow>
                  (let st2 = (if df_assignments \<noteq> []
                              then fold (discord_assignment_row py (d_channel_send env) now)
                                     df_assignments st1
                              else st1)
                   in (d_save env, st2))))"

text \<open>
  \<^verbatim>\<open>check_and_send_reminders\<close>: the \<^verbatim>\<open>while not bot.is_closed()\<close> loop, run on the
  passes it is given. The result lists the passes that were entered, \<open>None\<close> for one that
  reached the sleep and \<open>Some e\<close> for the one whose exception ended the coroutine.
\<close>

fun check_and_send_reminders ::
  "pylib \<Rightarrow> denv list \<Rightarrow> dstate \<Rightarrow> exn option list \<times> dstate" where
  "check_and_send_reminders py [] st = ([], st)"
| "check_and_send_reminders py (env # envs) st =
     (case discord_tick py env st of
        (Some e, st') \<Rightarrow> ([Some e], st')
      | (None, st') \<Rightarrow>
          (case check_and_send_reminders py envs st' of
             (tr, st'') \<Rightarrow> (None # tr, st'')))"

datatype 's outcome = StartupError exn | ChannelNotFound | Loop "exn option list" 's

definition discord_program ::
  "(string \<Rightarrow> int option) \<Rightarrow> pylib \<Rightarrow> environ \<Rightarrow> pystr option \<Rightarrow> bool \<Rightarrow> denv list
     \<Rightarrow> dstate outcome" where
  "discord_program int_of py environ file channel envs =
     (case discord_config int_of environ of
        Inl e \<Rightarrow> StartupError e
      | Inr cfg \<Rightarrow>
          (let st = \<lparr>sent_reminders = load_sent_log file, dispatches = []\<rparr>
           in if \<not> channel then ChannelNotFound
              else (case check_and_send_reminders py envs st of
                      (tr, st') \<Rightarrow> Loop tr st')))"

section \<open>mail\_scheduler.py\<close>

subsection \<open>Start-up configuration\<close>

definition default_db_path :: string where
  "default_db_path =
     ''D:'' @ [CHR 0x5C] @ ''Internship_ICT'' @ [CHR 0x5C] @ ''Final'' @ [CHR 0x5C]
       @ ''automated_reminders'' @ [CHR 0x5C] @ ''database'' @ [CHR 0x5C] @ ''reminders.db''"

record mail_config =
  M_DB_PATH :: string
  SENDER_EMAIL :: string
  SENDER_PASS :: string

definition mail_config :: "environ \<Rightarrow> exn + mail_config" where
  "mail_config environ =
     (let db_path = (case environ ''DB_PATH'' of Some p \<Rightarrow> p | None \<Rightarrow> default_db_path);
          sender_email = environ ''SENDER_EMAIL'';
          sender_pass = environ ''SENDER_PASS''
      in if falsy sender_email \<or> falsy sender_pass then Inl ValueError
         else Inr \<lparr>M_DB_PATH = db_path, SENDER_EMAIL = the sender_email,
                   SENDER_PASS = the sender_pass\<rparr>)"

subsection \<open>One threshold, one row, one tick, the loop\<close>

text \<open>
  An e-mail is the template and its values: the address, the student's name, the session or
  subject, course, batch, mode, the instant and the lead time in hours. \<^verbatim>\<open>send_email\<close>
  catches every exception of the SMTP exchange; \<open>smtp\<close> tells whether it delivered.
\<close>

datatype email =
    ClassReminder pystr pystr pystr pystr pystr pystr datetime nat
  | AssignmentReminder pystr pystr pystr pystr pystr pystr datetime nat

type_synonym mstate = "(email \<times> bool) list evaluator"

definition send_email :: "(email \<Rightarrow> bool) \<Rightarrow> email \<Rightarrow> email \<times> bool" where
  "send_email smtp msg = (msg, smtp msg)"

text \<open>
  The boolean mask over \<^verbatim>\<open>students_df\<close>: course, batch and mode are compared after
  \<^verbatim>\<open>lower()\<close>, the year with \<^verbatim>\<open>==\<close>.
\<close>

definition select_recipients ::
  "pylib \<Rightarrow> student list \<Rightarrow> pystr \<Rightarrow> pystr \<Rightarrow> pyval \<Rightarrow> pystr \<Rightarrow> student list" where
  "select_recipients py students_df course batch_name year mode =
     filter (\<lambda>stu. py_lower py (s_course stu) = py_lower py course
                 \<and> py_lower py (s_batch_name stu) = py_lower py batch_name
                 \<and> py_eq (s_year stu) year
                 \<and> py_lower py (s_mode stu) = py_lower py mode) students_df"

definition mail_class_key :: "pylib \<Rightarrow> class_row \<Rightarrow> pystr \<Rightarrow> nat \<Rightarrow> pystr" where
  "mail_class_key py row mode hours_before =
     u ''class-'' @ c_course row @ u ''-'' @ c_batch_name row @ u ''-'' @ py_str py (c_year row)
       @ u ''-'' @ mode @ u ''-'' @ c_session_name row @ u ''-'' @ str_nat hours_before"

definition mail_assignment_key :: "pylib \<Rightarrow> assignment_row \<Rightarrow> pystr \<Rightarrow> nat \<Rightarrow> pystr" where
  "mail_assignment_key py row mode hours_before =
     u ''assignment-'' @ a_course row @ u ''-'' @ a_batch_name row @ u ''-''
       @ py_str py (a_year row) @ u ''-'' @ mode @ u ''-'' @ a_subject row @ u ''-''
       @ str_nat hours_before"

text \<open>The body of \<^verbatim>\<open>for hours_before in [24, 1]\<close> for a class row.\<close>

definition mail_class_threshold ::
  "pylib \<Rightarrow> (email \<Rightarrow> bool) \<Rightarrow> datetime \<Rightarrow> student list \<Rightarrow> class_row \<Rightarrow> pystr \<Rightarrow> datetime
     \<Rightarrow> nat \<Rightarrow> mstate \<Rightarrow> mstate" where
  "mail_class_threshold py smtp now students_df row mode class_time hours_before st =
     (let reminder_time = class_time - timedelta_hours hours_before;
          key = mail_class_key py row mode hours_before
      in if 0 \<le> total_seconds (now - reminder_time)
            \<and> total_seconds (now - reminder_time) < 600
            \<and> key \<notin> sent_reminders st
         then (let recipients =
                     select_recipients py students_df (c_course row) (c_batch_name row)
                       (c_year row) mode
               in if recipients = [] then st
                  else add_key key
                         (dispatch key
                            (map (\<lambda>stu. send_email smtp
                                    (ClassReminder (s_email stu) (s_name stu) (c_session_name row)
                                       (c_course row) (c_batch_name row) mode class_time
                                       hours_before))
                               recipients) st))
         else st)"

definition mail_class_row ::
  "pylib \<Rightarrow> (email \<Rightarrow> bool) \<Rightarrow> datetime \<Rightarrow> student list \<Rightarrow> class_row \<Rightarrow> mstate \<Rightarrow> mstate" where
  "mail_class_row py smtp now students_df row st =
     (let mode = strip (c_mode row)
      in case py_strptime py (c_date row @ u '' '' @ c_time row) of
           None \<Rightarrow> st
         | Some class_time \<Rightarrow>
             fold (mail_class_threshold py smtp now students_df row mode class_time) [24, 1] st)"

definition mail_assignment_threshold ::
  "pylib \<Rightarrow> (email \<Rightarrow> bool) \<Rightarrow> datetime \<Rightarrow> student list \<Rightarrow> assignment_row \<Rightarrow> pystr
     \<Rightarrow> datetime \<Rightarrow> nat \<Rightarrow> mstate \<Rightarrow> mstate" where
  "mail_assignment_threshold py smtp now students_df row mode due_time hours_before st =
     (let reminder_time = due_time - timedelta_hours hours_before;
          key = mail_assignment_key py row mode hours_before
      in if 0 \<le> total_seconds (now - reminder_time)
            \<and> total_seconds (now - reminder_time) < 600
            \<and> key \<notin> sent_reminders st
         then (let recipients =
                     select_recipients py students_df (a_course row) (a_batch_name row)
                       (a_year row) mode
               in if recipients = [] then st
                  else add_key key
                         (dispatch key
                            (map (\<lambda>stu. send_email smtp
                                    (AssignmentReminder (s_email stu) (s_name stu) (a_subject row)
                                       (a_course row) (a_batch_name row) mode due_time
                                       hours_before))
                               recipients) st))
         else st)"

text \<open>
  \<^verbatim>\<open>due_str\<close> after the default time was appended: a due date of ten characters, white
  space at its ends not counted, gets \<^verbatim>\<open>09:00\<close>.
\<close>

definition due_str :: "assignment_row \<Rightarrow> pystr" where
  "due_str row =
     (if length (strip (a_due_date row)) = 10 then a_due_date row @ u '' 09:00''
      else a_due_date row)"

definition mail_assignment_row ::
  "pylib \<Rightarrow> (email \<Rightarrow> bool) \<Rightarrow> datetime \<Rightarrow> student list \<Rightarrow> assignment_row \<Rightarrow> mstate
     \<Rightarrow> mstate" where
  "mail_assignment_row py smtp now students_df row st =
     (let mode = strip (a_mode row)
      in case py_strptime py (due_str row) of
           None \<Rightarrow> st
         | Some due_time \<Rightarrow>
             fold (mail_assignment_threshold py smtp now students_df row mode due_time) [24, 1]
               st)"

text \<open>
  \<^verbatim>\<open>send_reminders\<close>: the three queries come first, and the exception of one of them
  leaves the function before anything is sent.
\<close>

record menv =
  m_now :: datetime
  m_students :: "exn + student list"
  m_classes :: "exn + class_row list"
  m_assignments :: "exn + assignment_row list"
  m_smtp :: "email \<Rightarrow> bool"

definition send_reminders :: "pylib \<Rightarrow> menv \<Rightarrow> mstate \<Rightarrow> exn option \<times> mstate" where
  "send_reminders py env st =
     (let now = m_now env in
      case m_students env of
        Inl e \<Rightarrow> (Some e, st)
      | Inr students_df \<Rightarrow>
          (case m_classes env of
             Inl e \<Rightarrow> (Some e, st)
           | Inr classes_df \<Rightarrow>
               (case m_assignments env of
                  Inl e \<Rightarrow> (Some e, st)
                | Inr assignments_df \<Rightarrow>
                    (None,
                     fold (mail_assignment_row py (m_smtp env) now students_df)
                       assignments_df
                       (fold (mail_class_row py (m_smtp env) now students_df)
                          classes_df st)))))"

text \<open>
  The main loop: \<^verbatim>\<open>while True: try: send_reminders() except Exception: print(...)\<close>, then
  the sleep. The result lists every pass with the exception that was caught in it, if any.
\<close>

fun mail_loop :: "pylib \<Rightarrow> menv list \<Rightarrow> mstate \<Rightarrow> exn option list \<times> mstate" where
  "mail_loop py [] st = ([], st)"
| "mail_loop py (env # envs) st =
     (case send_reminders py env st of
        (caught, st') \<Rightarrow>
          (case mail_loop py envs st' of
             (tr, st'') \<Rightarrow> (caught # tr, st'')))"

definition mail_program :: "pylib \<Rightarrow> environ \<Rightarrow> menv list \<Rightarrow> mstate outcome" where
  "mail_program py environ envs =
     (case mail_config environ of
        Inl e \<Rightarrow> StartupError e
      | Inr cfg \<Rightarrow>
          (case mail_loop py envs \<lparr>sent_reminders = {}, dispatches = []\<rparr> of
             (tr, st) \<Rightarrow> Loop tr st))"

section \<open>How the ledger and the trace move\<close>



section \<open>What is observed of a run\<close>

text \<open>
  \<open>elapsed now T h\<close> is the time in seconds since the instant \<open>h\<close> hours before \<open>T\<close>.
  \<open>fired key st st'\<close>: between the two states a dispatch labelled \<open>key\<close> was added to the
  trace. \<open>marked key d st st'\<close>: the dispatch \<open>d\<close> labelled \<open>key\<close> is the one that was added,
  and the key is in the ledger. \<open>attempts\<close> lists the e-mails handed to SMTP, oldest first.
\<close>

definition elapsed :: "datetime \<Rightarrow> datetime \<Rightarrow> nat \<Rightarrow> rat" where
  "elapsed now T h = total_seconds (now - (T - timedelta_hours h))"

definition fired :: "pystr \<Rightarrow> 'd evaluator \<Rightarrow> 'd evaluator \<Rightarrow> bool" where
  "fired key st st' = (sent_for key st' \<noteq> sent_for key st)"

definition marked :: "pystr \<Rightarrow> 'd \<Rightarrow> 'd evaluator \<Rightarrow> 'd evaluator \<Rightarrow> bool" where
  "marked key d st st' =
     (key \<in> sent_reminders st' \<and> sent_for key st' = sent_for key st @ [(key, d)])"

definition attempts :: "mstate \<Rightarrow> email list" where
  "attempts st = map fst (concat (map snd (dispatches st)))"


section \<open>Scenario values\<close>

text \<open>
  The class of the specification's scenario: CS101, batch A, session Intro, on 2024-01-02 at
  10:00, and an assignment due on 2024-03-05. The time line starts at 2024-01-01 00:00, so the
  class is at 122400 s and the instant 24 hours before it at 36000 s; the assignment is due at
  5615940 s for the Discord script (23:59) and at 5562000 s for the e-mail script (09:00);
  all instants are written in microseconds. \<open>example_strptime\<close> parses exactly these three
  texts and raises on everything else; \<open>ascii_lower\<close> is \<^verbatim>\<open>str.lower\<close> on ASCII text, which
  is all the scenario holds. \<open>delivering\<close> is a transport that always delivers, \<open>failing\<close>
  one that always raises. \<open>padded_class\<close> and \<open>padded_student\<close> carry a trailing blank in
  their mode; the year of \<open>text_year_student\<close> is the text 2024, that of
  \<open>float_year_student\<close> the float 2024.0. The \<open>db_down\<close> passes meet a failing query,
  \<open>disk_full_denv\<close> a failing write of the ledger file. \<open>cr_key\<close> is a key with a carriage
  return inside; \<open>utf8\<close> tells the code points UTF-8 encodes.
\<close>

definition fresh :: "'d evaluator" where
  "fresh = \<lparr>sent_reminders = {}, dispatches = []\<rparr>"

definition delivering :: "'a \<Rightarrow> bool" where
  "delivering msg = True"

definition failing :: "'a \<Rightarrow> bool" where
  "failing msg = False"

definition example_strptime :: "pystr \<Rightarrow> datetime option" where
  "example_strptime s =
     (if s = u ''2024-01-02 10:00'' then Some 122400000000
      else if s = u ''2024-03-05 23:59'' then Some 5615940000000
      else if s = u ''2024-03-05 09:00'' then Some 5562000000000
      else None)"

definition ascii_lower :: "pystr \<Rightarrow> pystr" where
  "ascii_lower s = map (\<lambda>c. if 65 \<le> c \<and> c \<le> 90 then c + 32 else c) s"

definition example_float_str :: "rat \<Rightarrow> pystr" where
  "example_float_str q = u ''2024.0''"

definition example_py :: pylib where
  "example_py =
     \<lparr>py_strptime = example_strptime, py_lower = ascii_lower, py_float_str = example_float_str\<rparr>"

definition example_int :: "string \<Rightarrow> int option" where
  "example_int s = (if s = ''42'' then Some 42 else None)"

definition example_class :: class_row where
  "example_class =
     \<lparr>c_course = u ''CS101'', c_batch_name = u ''A'', c_year = PInt 2024,
      c_session_name = u ''Intro'', c_date = u ''2024-01-02'', c_time = u ''10:00'',
      c_mode = u ''Online''\<rparr>"

definition example_assignment :: assignment_row where
  "example_assignment =
     \<lparr>a_course = u ''CS101'', a_batch_name = u ''A'', a_year = PInt 2024,
      a_subject = u ''Essay'', a_due_date = u ''2024-03-05'', a_mode = u ''Online''\<rparr>"

definition example_student :: student where
  "example_student =
     \<lparr>s_name = u ''Asha'', s_email = u ''asha@example.org'', s_course = u ''cs101'',
      s_batch_name = u ''a'', s_year = PInt 2024, s_mode = u ''ONLINE''\<rparr>"

definition padded_class :: class_row where
  "padded_class = example_class\<lparr>c_mode := u ''Online ''\<rparr>"

definition padded_student :: student where
  "padded_student = example_student\<lparr>s_email := u ''pad@example.org'', s_mode := u ''ONLINE ''\<rparr>"

definition text_year_student :: student where
  "text_year_student =
     example_student\<lparr>s_email := u ''text@example.org'', s_year := PStr (u ''2024'')\<rparr>"

definition float_year_student :: student where
  "float_year_student =
     example_student\<lparr>s_name := u ''Ben'', s_email := u ''ben@example.org'', s_year := PFloat 2024\<rparr>"

definition example_denv :: denv where
  "example_denv =
     \<lparr>d_now = 36000000000, d_classes = Inr [example_class], d_assignments = Inr [],
      d_channel_send = delivering, d_save = None\<rparr>"

definition example_menv :: menv where
  "example_menv =
     \<lparr>m_now = 36060000000, m_students = Inr [example_student], m_classes = Inr [example_class],
      m_assignments = Inr [], m_smtp = delivering\<rparr>"

definition db_down_denv :: denv where
  "db_down_denv = example_denv\<lparr>d_now := 35940000000, d_classes := Inl DatabaseError\<rparr>"

definition disk_full_denv :: denv where
  "disk_full_denv =
     example_denv\<lparr>d_now := 35940000000, d_classes := Inr [], d_save := Some OSError\<rparr>"

definition db_down_menv :: menv where
  "db_down_menv = example_menv\<lparr>m_now := 36000000000, m_students := Inl DatabaseError\<rparr>"

definition example_environ :: environ where
  "example_environ =
     [''SENDER_EMAIL'' \<mapsto> ''reminders@example.org'', ''SENDER_PASS'' \<mapsto> ''secret'']"



section \<open>Basic facts\<close>

lemma sent_reminders_add_key [simp]: "sent_reminders (add_key k st) = insert k (sent_reminders st)"
  by (simp add: add_key_def)
lemma dispatches_add_key [simp]: "dispatches (add_key k st) = dispatches st"
  by (simp add: add_key_def)
lemma sent_reminders_dispatch [simp]: "sent_reminders (dispatch k d st) = sent_reminders st"
  by (simp add: dispatch_def)
lemma dispatches_dispatch [simp]: "dispatches (dispatch k d st) = dispatches st @ [(k, d)]"
  by (simp add: dispatch_def)


















lemma u_eq_iff [simp]: "(u s = u t) = (s = t)"
  by (simp add: u_def inj_map_eq_map [OF inj_of_char])


lemmas example_defs =
  example_class_def example_assignment_def example_student_def padded_class_def
  padded_student_def text_year_student_def float_year_student_def example_strptime_def
  ascii_lower_def example_float_str_def example_py_def delivering_def failing_def fresh_def
  example_denv_def example_menv_def db_down_denv_def disk_full_denv_def db_down_menv_def

lemmas eval_defs =
  discord_class_row_def discord_class_key_def discord_assignment_row_def discord_assign_key_def
  discord_tick_def mail_class_threshold_def mail_class_key_def mail_class_row_def
  mail_assignment_threshold_def mail_assignment_key_def mail_assignment_row_def due_str_def
  send_reminders_def select_recipients_def send_reminder_def send_email_def
  add_key_def dispatch_def sent_for_def fired_def marked_def attempts_def elapsed_def
  total_seconds_def timedelta_hours_def strip_def isspace_def str_nat.simps str_int_def
  u_def Let_def

lemma fired_site: "fired k st (add_key key (dispatch key d st)) = (k = key)"
  by (auto simp: fired_def sent_for_def)

lemma fired_same: "\<not> fired k st st"
  by (simp add: fired_def)

lemma fired_other_key:
  "k \<noteq> key \<Longrightarrow> fired k st (add_key key (dispatch key d st')) = fired k st st'"
  by (simp add: fired_def sent_for_def)

lemma attempts_site: "attempts (add_key key (dispatch key ms st)) = attempts st @ map fst ms"
  by (simp add: attempts_def)




lemma mail_loop_enters_every_pass: "length (fst (mail_loop py envs st)) = length envs"
proof (induction envs arbitrary: st)
  case Nil
  show ?case by simp
next
  case (Cons env envs)
  obtain r st' where t: "send_reminders py env st = (r, st')"
    by (cases "send_reminders py env st")
  obtain tr st'' where l: "mail_loop py envs st' = (tr, st'')"
    by (cases "mail_loop py envs st'")
  from Cons.IH [of st'] l have "length tr = length envs" by simp
  with t l show ?case by simp
qed

section \<open>At most one dispatch per key\<close>

text \<open>
  Two passes one minute apart, both inside the window of the scenario class: each loop
  dispatches the 24-hour reminder in the first pass and nothing in the second.
\<close>

lemma two_passes_one_dispatch:
  "map fst (dispatches (snd (check_and_send_reminders example_py
       [example_denv\<lparr>d_now := 35940000000\<rparr>, example_denv] fresh)))
     = [u ''class-CS101-A-Intro-2024-01-02-24hr'']
   \<and> map fst (dispatches (snd (mail_loop example_py
       [example_menv\<lparr>m_now := 36000000000\<rparr>, example_menv] fresh)))
     = [u ''class-CS101-A-2024-Online-Intro-24'']"
  by (simp add: eval_defs example_defs)


section \<open>The reminder key\<close>

lemma discord_class_keys_differ:
  "discord_class_key row (u ''24hr'') \<noteq> discord_class_key row (u ''1hr'')"
  by (simp add: discord_class_key_def)

lemma discord_assign_keys_differ:
  "discord_assign_key row (u ''24hr'') \<noteq> discord_assign_key row (u ''1hr'')"
  by (simp add: discord_assign_key_def)

lemma mail_class_key_hours_differ: "mail_class_key py row mode 24 \<noteq> mail_class_key py row mode 1"
  by (simp add: mail_class_key_def str_nat.simps)

lemma mail_assignment_key_hours_differ:
  "mail_assignment_key py row mode 24 \<noteq> mail_assignment_key py row mode 1"
  by (simp add: mail_assignment_key_def str_nat.simps)























section \<open>The firing window\<close>

lemma discord_window_24:
  "(0 \<le> total_seconds (T - now) - 86400 \<and> total_seconds (T - now) - 86400 \<le> 600 \<and> K) =
   (- 600 \<le> elapsed now T 24 \<and> elapsed now T 24 \<le> 0 \<and> K)"
  by (auto simp: elapsed_def total_seconds_def timedelta_hours_def field_simps)

lemma discord_window_1:
  "(0 \<le> total_seconds (T - now) - 3600 \<and> total_seconds (T - now) - 3600 \<le> 600 \<and> K) =
   (- 600 \<le> elapsed now T 1 \<and> elapsed now T 1 \<le> 0 \<and> K)"
  by (auto simp: elapsed_def total_seconds_def timedelta_hours_def field_simps)

lemma mail_window:
  "(0 \<le> total_seconds (now - (T - timedelta_hours h))
      \<and> total_seconds (now - (T - timedelta_hours h)) < 600 \<and> K) =
   (0 \<le> elapsed now T h \<and> elapsed now T h < 600 \<and> K)"
  by (simp add: elapsed_def)

lemma windows_apart_discord:
  "0 \<le> total_seconds d - 86400 \<Longrightarrow> \<not> total_seconds d - 3600 \<le> 600"
  by (simp add: total_seconds_def field_simps)

text \<open>
  With lead times of 24 hours and 1 hour and windows of 600 seconds, the two windows of one
  event are never open at the same instant, in either script.
\<close>

lemma thresholds_never_both_due:
  "\<not> (0 \<le> elapsed now T 24 \<and> elapsed now T 24 < 600
       \<and> 0 \<le> elapsed now T 1 \<and> elapsed now T 1 < 600)"
  "\<not> (- 600 \<le> elapsed now T 24 \<and> elapsed now T 24 \<le> 0
       \<and> - 600 \<le> elapsed now T 1 \<and> elapsed now T 1 \<le> 0)"
  by (auto simp: elapsed_def total_seconds_def timedelta_hours_def field_simps)

lemma discord_class_row_fired_24:
  assumes "py_strptime py (c_date row @ u '' '' @ c_time row) = Some T"
  shows "fired (discord_class_key row (u ''24hr'')) st (discord_class_row py ch now row st) =
    (- 600 \<le> elapsed now T 24 \<and> elapsed now T 24 \<le> 0
      \<and> discord_class_key row (u ''24hr'') \<notin> sent_reminders st)"
proof -
  have "fired (discord_class_key row (u ''24hr'')) st (discord_class_row py ch now row st) =
    (0 \<le> total_seconds (T - now) - 86400 \<and> total_seconds (T - now) - 86400 \<le> 600
      \<and> discord_class_key row (u ''24hr'') \<notin> sent_reminders st)"
    using assms discord_class_keys_differ [of row]
    by (auto simp: discord_class_row_def Let_def send_reminder_def fired_site fired_same)
  then show ?thesis by (simp only: discord_window_24)
qed

lemma discord_class_row_fired_1:
  assumes "py_strptime py (c_date row @ u '' '' @ c_time row) = Some T"
  shows "fired (discord_class_key row (u ''1hr'')) st (discord_class_row py ch now row st) =
    (- 600 \<le> elapsed now T 1 \<and> elapsed now T 1 \<le> 0
      \<and> discord_class_key row (u ''1hr'') \<notin> sent_reminders st)"
proof -
  have "fired (discord_class_key row (u ''1hr'')) st (discord_class_row py ch now row st) =
    (0 \<le> total_seconds (T - now) - 3600 \<and> total_seconds (T - now) - 3600 \<le> 600
      \<and> discord_class_key row (u ''1hr'') \<notin> sent_reminders st)"
    using assms discord_class_keys_differ [of row] windows_apart_discord [of "T - now"]
    by (auto simp: discord_class_row_def Let_def send_reminder_def fired_site fired_same)
  then show ?thesis by (simp only: discord_window_1)
qed

lemma discord_assignment_row_fired_24:
  assumes "a_due_date row \<noteq> []" and "py_lower py (a_due_date row) \<noteq> u ''nan''"
    and "py_strptime py (a_due_date row @ u '' '' @ u ''23:59'') = Some T"
  shows "fired (discord_assign_key row (u ''24hr'')) st (discord_assignment_row py ch now row st) =
    (- 600 \<le> elapsed now T 24 \<and> elapsed now T 24 \<le> 0
      \<and> discord_assign_key row (u ''24hr'') \<notin> sent_reminders st)"
proof -
  have "fired (discord_assign_key row (u ''24hr'')) st (discord_assignment_row py ch now row st) =
    (0 \<le> total_seconds (T - now) - 86400 \<and> total_seconds (T - now) - 86400 \<le> 600
      \<and> discord_assign_key row (u ''24hr'') \<notin> sent_reminders st)"
    using assms discord_assign_keys_differ [of row]
    by (auto simp: discord_assignment_row_def Let_def send_reminder_def fired_site fired_same)
  then show ?thesis by (simp only: discord_window_24)
qed

lemma discord_assignment_row_fired_1:
  assumes "a_due_date row \<noteq> []" and "py_lower py (a_due_date row) \<noteq> u ''nan''"
    and "py_strptime py (a_due_date row @ u '' '' @ u ''23:59'') = Some T"
  shows "fired (discord_assign_key row (u ''1hr'')) st (discord_assignment_row py ch now row st) =
    (- 600 \<le> elapsed now T 1 \<and> elapsed now T 1 \<le> 0
      \<and> discord_assign_key row (u ''1hr'') \<notin> sent_reminders st)"
proof -
  have "fired (discord_assign_key row (u ''1hr'')) st (discord_assignment_row py ch now row st) =
    (0 \<le> total_seconds (T - now) - 3600 \<and> total_seconds (T - now) - 3600 \<le> 600
      \<and> discord_assign_key row (u ''1hr'') \<notin> sent_reminders st)"
    using assms discord_assign_keys_differ [of row] windows_apart_discord [of "T - now"]
    by (auto simp: discord_assignment_row_def Let_def send_reminder_def fired_site fired_same)
  then show ?thesis by (simp only: discord_window_1)
qed

lemma mail_class_threshold_fired:
  "fired (mail_class_key py row mode h) st
     (mail_class_threshold py smtp now students row mode T h st) =
    (0 \<le> elapsed now T h \<and> elapsed now T h < 600
      \<and> mail_class_key py row mode h \<notin> sent_reminders st
      \<and> select_recipients py students (c_course row) (c_batch_name row) (c_year row) mode \<noteq> [])"
  by (auto simp: mail_class_threshold_def Let_def fired_site fired_same elapsed_def)

lemma mail_assignment_threshold_fired:
  "fired (mail_assignment_key py row mode h) st
     (mail_assignment_threshold py smtp now students row mode T h st) =
    (0 \<le> elapsed now T h \<and> elapsed now T h < 600
      \<and> mail_assignment_key py row mode h \<notin> sent_reminders st
      \<and> select_recipients py students (a_course row) (a_batch_name row) (a_year row) mode \<noteq> [])"
  by (auto simp: mail_assignment_threshold_def Let_def fired_site fired_same elapsed_def)

lemma mail_class_threshold_other:
  "k \<noteq> mail_class_key py row mode h \<Longrightarrow>
   sent_for k (mail_class_threshold py smtp now students row mode T h st) = sent_for k st"
  by (simp add: mail_class_threshold_def Let_def sent_for_def)

lemma mail_assignment_threshold_other:
  "k \<noteq> mail_assignment_key py row mode h \<Longrightarrow>
   sent_for k (mail_assignment_threshold py smtp now students row mode T h st) = sent_for k st"
  by (simp add: mail_assignment_threshold_def Let_def sent_for_def)

lemma mail_class_threshold_ledger_other:
  "k \<noteq> mail_class_key py row mode h \<Longrightarrow>
   (k \<in> sent_reminders (mail_class_threshold py smtp now students row mode T h st))
     = (k \<in> sent_reminders st)"
  by (simp add: mail_class_threshold_def Let_def)

lemma mail_assignment_threshold_ledger_other:
  "k \<noteq> mail_assignment_key py row mode h \<Longrightarrow>
   (k \<in> sent_reminders (mail_assignment_threshold py smtp now students row mode T h st))
     = (k \<in> sent_reminders st)"
  by (simp add: mail_assignment_threshold_def Let_def)

lemma mail_class_row_unfold:
  "py_strptime py (c_date row @ u '' '' @ c_time row) = Some T \<Longrightarrow>
   mail_class_row py smtp now students row st =
     mail_class_threshold py smtp now students row (strip (c_mode row)) T 1
       (mail_class_threshold py smtp now students row (strip (c_mode row)) T 24 st)"
  by (simp add: mail_class_row_def Let_def)

lemma mail_assignment_row_unfold:
  "py_strptime py (due_str row) = Some T \<Longrightarrow>
   mail_assignment_row py smtp now students row st =
     mail_assignment_threshold py smtp now students row (strip (a_mode row)) T 1
       (mail_assignment_threshold py smtp now students row (strip (a_mode row)) T 24 st)"
  by (simp add: mail_assignment_row_def Let_def)

lemma mail_class_row_fired_24:
  assumes "py_strptime py (c_date row @ u '' '' @ c_time row) = Some T"
  shows "fired (mail_class_key py row (strip (c_mode row)) 24) st
           (mail_class_row py smtp now students row st) =
    (0 \<le> elapsed now T 24 \<and> elapsed now T 24 < 600
      \<and> mail_class_key py row (strip (c_mode row)) 24 \<notin> sent_reminders st
      \<and> select_recipients py students (c_course row) (c_batch_name row) (c_year row)
           (strip (c_mode row)) \<noteq> [])"
  unfolding mail_class_row_unfold [OF assms]
  using mail_class_threshold_fired [of py row "strip (c_mode row)" 24 st smtp now students T]
    mail_class_threshold_other [OF mail_class_key_hours_differ]
  by (simp add: fired_def)

lemma mail_class_row_fired_1:
  assumes "py_strptime py (c_date row @ u '' '' @ c_time row) = Some T"
  shows "fired (mail_class_key py row (strip (c_mode row)) 1) st
           (mail_class_row py smtp now students row st) =
    (0 \<le> elapsed now T 1 \<and> elapsed now T 1 < 600
      \<and> mail_class_key py row (strip (c_mode row)) 1 \<notin> sent_reminders st
      \<and> select_recipients py students (c_course row) (c_batch_name row) (c_year row)
           (strip (c_mode row)) \<noteq> [])"
proof -
  let ?k1 = "mail_class_key py row (strip (c_mode row)) 1"
  let ?st24 = "mail_class_threshold py smtp now students row (strip (c_mode row)) T 24 st"
  have d: "?k1 \<noteq> mail_class_key py row (strip (c_mode row)) 24"
    using mail_class_key_hours_differ [of py row "strip (c_mode row)"] by simp
  have a: "sent_for ?k1 ?st24 = sent_for ?k1 st"
    by (rule mail_class_threshold_other [OF d])
  have b: "(?k1 \<in> sent_reminders ?st24) = (?k1 \<in> sent_reminders st)"
    by (rule mail_class_threshold_ledger_other [OF d])
  have "fired ?k1 st (mail_class_threshold py smtp now students row (strip (c_mode row)) T 1 ?st24)
          = fired ?k1 ?st24
              (mail_class_threshold py smtp now students row (strip (c_mode row)) T 1 ?st24)"
    unfolding fired_def a by (rule refl)
  then show ?thesis
    unfolding mail_class_row_unfold [OF assms] mail_class_threshold_fired b by (rule ssubst) (rule refl)
qed

lemma mail_assignment_row_fired_24:
  assumes "py_strptime py (due_str row) = Some T"
  shows "fired (mail_assignment_key py row (strip (a_mode row)) 24) st
           (mail_assignment_row py smtp now students row st) =
    (0 \<le> elapsed now T 24 \<and> elapsed now T 24 < 600
      \<and> mail_assignment_key py row (strip (a_mode row)) 24 \<notin> sent_reminders st
      \<and> select_recipients py students (a_course row) (a_batch_name row) (a_year row)
           (strip (a_mode row)) \<noteq> [])"
  unfolding mail_assignment_row_unfold [OF assms]
  using mail_assignment_threshold_fired
          [of py row "strip (a_mode row)" 24 st smtp now students T]
    mail_assignment_threshold_other [OF mail_assignment_key_hours_differ]
  by (simp add: fired_def)

lemma mail_assignment_row_fired_1:
  assumes "py_strptime py (due_str row) = Some T"
  shows "fired (mail_assignment_key py row (strip (a_mode row)) 1) st
           (mail_assignment_row py smtp now students row st) =
    (0 \<le> elapsed now T 1 \<and> elapsed now T 1 < 600
      \<and> mail_assignment_key py row (strip (a_mode row)) 1 \<notin> sent_reminders st
      \<and> select_recipients py students (a_course row) (a_batch_name row) (a_year row)
           (strip (a_mode row)) \<noteq> [])"
proof -
  let ?k1 = "mail_assignment_key py row (strip (a_mode row)) 1"
  let ?st24 = "mail_assignment_threshold py smtp now students row (strip (a_mode row)) T 24 st"
  have d: "?k1 \<noteq> mail_assignment_key py row (strip (a_mode row)) 24"
    using mail_assignment_key_hours_differ [of py row "strip (a_mode row)"] by simp
  have a: "sent_for ?k1 ?st24 = sent_for ?k1 st"
    by (rule mail_assignment_threshold_other [OF d])
  have b: "(?k1 \<in> sent_reminders ?st24) = (?k1 \<in> sent_reminders st)"
    by (rule mail_assignment_threshold_ledger_other [OF d])
  have "fired ?k1 st
          (mail_assignment_threshold py smtp now students row (strip (a_mode row)) T 1 ?st24)
          = fired ?k1 ?st24
              (mail_assignment_threshold py smtp now students row (strip (a_mode row)) T 1 ?st24)"
    unfolding fired_def a by (rule refl)
  then show ?thesis
    unfolding mail_assignment_row_unfold [OF assms] mail_assignment_threshold_fired b by (rule ssubst) (rule refl)
qed

text \<open>
  Claim C3, as amended. Let \<open>T\<close> be the instant of the event (for an assignment, the due date
  at 09:00 in \<^verbatim>\<open>mail_scheduler.py\<close> and at 23:59 in \<^verbatim>\<open>discord_notifier.py\<close>) and
  \<open>elapsed = now - (T - h hours)\<close>, in seconds. For every class and every assignment whose
  date parses, and for both thresholds: the pass over the row in \<^verbatim>\<open>mail_scheduler.py\<close>
  dispatches the reminder exactly when \<open>0 \<le> elapsed < 600\<close>, its key is unsent and a student
  matches; the pass over the row in \<^verbatim>\<open>discord_notifier.py\<close>, whose test is
  \<open>0 \<le> (T - now) - h \<le> 600\<close>, dispatches it exactly when \<open>- 600 \<le> elapsed \<le> 0\<close> and its key
  is unsent: there the window lies before the crossing and is closed at both ends.
\<close>

theorem firing_window:
  "(py_strptime py (c_date row @ u '' '' @ c_time row) = Some T \<longrightarrow>
      fired (mail_class_key py row (strip (c_mode row)) 24) mst
          (mail_class_row py smtp now students row mst) =
        (0 \<le> elapsed now T 24 \<and> elapsed now T 24 < 600
          \<and> mail_class_key py row (strip (c_mode row)) 24 \<notin> sent_reminders mst
          \<and> select_recipients py students (c_course row) (c_batch_name row) (c_year row)
               (strip (c_mode row)) \<noteq> [])
      \<and> fired (mail_class_key py row (strip (c_mode row)) 1) mst
          (mail_class_row py smtp now students row mst) =
        (0 \<le> elapsed now T 1 \<and> elapsed now T 1 < 600
          \<and> mail_class_key py row (strip (c_mode row)) 1 \<notin> sent_reminders mst
          \<and> select_recipients py students (c_course row) (c_batch_name row) (c_year row)
               (strip (c_mode row)) \<noteq> [])
      \<and> fired (discord_class_key row (u ''24hr'')) dst
          (discord_class_row py channel_send now row dst) =
        (- 600 \<le> elapsed now T 24 \<and> elapsed now T 24 \<le> 0
          \<and> discord_class_key row (u ''24hr'') \<notin> sent_reminders dst)
      \<and> fired (discord_class_key row (u ''1hr'')) dst
          (discord_class_row py channel_send now row dst) =
        (- 600 \<le> elapsed now T 1 \<and> elapsed now T 1 \<le> 0
          \<and> discord_class_key row (u ''1hr'') \<notin> sent_reminders dst))
   \<and> (py_strptime py (due_str arow) = Some T \<longrightarrow>
      fired (mail_assignment_key py arow (strip (a_mode arow)) 24) mst
          (mail_assignment_row py smtp now students arow mst) =
        (0 \<le> elapsed now T 24 \<and> elapsed now T 24 < 600
          \<and> mail_assignment_key py arow (strip (a_mode arow)) 24 \<notin> sent_reminders mst
          \<and> select_recipients py students (a_course arow) (a_batch_name arow) (a_year arow)
               (strip (a_mode arow)) \<noteq> [])
      \<and> fired (mail_assignment_key py arow (strip (a_mode arow)) 1) mst
          (mail_assignment_row py smtp now students arow mst) =
        (0 \<le> elapsed now T 1 \<and> elapsed now T 1 < 600
          \<and> mail_assignment_key py arow (strip (a_mode arow)) 1 \<notin> sent_reminders mst
          \<and> select_recipients py students (a_course arow) (a_batch_name arow) (a_year arow)
               (strip (a_mode arow)) \<noteq> []))
   \<and> (a_due_date arow \<noteq> [] \<and> py_lower py (a_due_date arow) \<noteq> u ''nan''
        \<and> py_strptime py (a_due_date arow @ u '' '' @ u ''23:59'') = Some T \<longrightarrow>
      fired (discord_assign_key arow (u ''24hr'')) dst
          (discord_assignment_row py channel_send now arow dst) =
        (- 600 \<le> elapsed now T 24 \<and> elapsed now T 24 \<le> 0
          \<and> discord_assign_key arow (u ''24hr'') \<notin> sent_reminders dst)
      \<and> fired (discord_assign_key arow (u ''1hr'')) dst
          (discord_assignment_row py channel_send now arow dst) =
        (- 600 \<le> elapsed now T 1 \<and> elapsed now T 1 \<le> 0
          \<and> discord_assign_key arow (u ''1hr'') \<notin> sent_reminders dst))"
  by (intro conjI impI mail_class_row_fired_24 mail_class_row_fired_1
      discord_class_row_fired_24 discord_class_row_fired_1
      mail_assignment_row_fired_24 mail_assignment_row_fired_1
      discord_assignment_row_fired_24 discord_assignment_row_fired_1; (elim conjE)?; assumption)

text \<open>
  The scenario class at exactly 24 hours before (\<open>elapsed = 0\<close>): both scripts dispatch the
  24-hour reminder, and the Discord script does not dispatch the 1-hour one. The scenario
  assignment at exactly one hour before it is due, in each script.
\<close>

theorem firing_window_witness:
  "py_strptime example_py (c_date example_class @ u '' '' @ c_time example_class)
     = Some 122400000000
   \<and> py_strptime example_py (due_str example_assignment) = Some 5562000000000
   \<and> a_due_date example_assignment \<noteq> []
   \<and> py_lower example_py (a_due_date example_assignment) \<noteq> u ''nan''
   \<and> py_strptime example_py (a_due_date example_assignment @ u '' '' @ u ''23:59'')
     = Some 5615940000000
   \<and> elapsed 36000000000 122400000000 24 = 0
   \<and> fired (mail_class_key example_py example_class (strip (c_mode example_class)) 24) fresh
        (mail_class_row example_py delivering 36000000000 [example_student] example_class fresh)
   \<and> fired (discord_class_key example_class (u ''24hr'')) fresh
        (discord_class_row example_py delivering 36000000000 example_class fresh)
   \<and> \<not> fired (discord_class_key example_class (u ''1hr'')) fresh
        (discord_class_row example_py delivering 36000000000 example_class fresh)
   \<and> elapsed 5558400000000 5562000000000 1 = 0
   \<and> fired (mail_assignment_key example_py example_assignment
               (strip (a_mode example_assignment)) 1) fresh
        (mail_assignment_row example_py delivering 5558400000000 [example_student]
           example_assignment fresh)
   \<and> elapsed 5612340000000 5615940000000 1 = 0
   \<and> fired (discord_assign_key example_assignment (u ''1hr'')) fresh
        (discord_assignment_row example_py delivering 5612340000000 example_assignment fresh)"
  using firing_window
          [where py = example_py and row = example_class and T = 122400000000
             and now = 36000000000 and mst = fresh and dst = fresh and smtp = delivering
             and channel_send = delivering and students = "[example_student]"]
        firing_window
          [where py = example_py and arow = example_assignment and T = 5562000000000
             and now = 5558400000000 and mst = fresh and smtp = delivering
             and students = "[example_student]"]
        firing_window
          [where py = example_py and arow = example_assignment and T = 5615940000000
             and now = 5612340000000 and dst = fresh and channel_send = delivering]
  by (simp add: eval_defs example_defs)

text \<open>
  The claim as stated fails on \<^verbatim>\<open>discord_notifier.py\<close>: one second before the crossing
  (\<open>elapsed = - 1\<close>) the 24-hour reminder is dispatched, and one second after it
  (\<open>elapsed = 1\<close>) it is not.
\<close>

theorem firing_window_counterexample:
  "elapsed 35999000000 122400000000 24 = - 1
   \<and> discord_class_key example_class (u ''24hr'') \<notin> sent_reminders (fresh :: dstate)
   \<and> fired (discord_class_key example_class (u ''24hr'')) fresh
        (discord_class_row example_py delivering 35999000000 example_class fresh)
   \<and> elapsed 36001000000 122400000000 24 = 1
   \<and> \<not> fired (discord_class_key example_class (u ''24hr'')) fresh
        (discord_class_row example_py delivering 36001000000 example_class fresh)"
  by (simp add: eval_defs example_defs)

section \<open>Which students are mailed\<close>

text \<open>
  Claim C5, as amended. For a due and unsent reminder of \<^verbatim>\<open>mail_scheduler.py\<close>, for a
  class as for an assignment, the e-mails handed to SMTP are, in the order of the roster, one
  to each student whose course, batch and mode are equal to the event's after \<^verbatim>\<open>lower()\<close>
  and whose year is equal to the event's under \<^verbatim>\<open>==\<close> on the typed values (the number 2024
  equals 2024.0 and does not equal the text 2024); the event's mode is taken after
  \<^verbatim>\<open>strip()\<close>, the student's mode is not stripped.
\<close>

theorem recipient_matching:
  assumes "0 \<le> elapsed now T h" and "elapsed now T h < 600"
    and "mail_class_key py row (strip (c_mode row)) h \<notin> sent_reminders st"
    and "mail_assignment_key py arow (strip (a_mode arow)) h \<notin> sent_reminders st"
  shows
    "attempts (mail_class_threshold py smtp now students row (strip (c_mode row)) T h st) =
       attempts st
       @ map (\<lambda>stu. ClassReminder (s_email stu) (s_name stu) (c_session_name row) (c_course row)
                      (c_batch_name row) (strip (c_mode row)) T h)
           (filter (\<lambda>stu. py_lower py (s_course stu) = py_lower py (c_course row)
                         \<and> py_lower py (s_batch_name stu) = py_lower py (c_batch_name row)
                         \<and> py_eq (s_year stu) (c_year row)
                         \<and> py_lower py (s_mode stu) = py_lower py (strip (c_mode row)))
              students)
     \<and> attempts (mail_assignment_threshold py smtp now students arow (strip (a_mode arow)) T h st)
       = attempts st
       @ map (\<lambda>stu. AssignmentReminder (s_email stu) (s_name stu) (a_subject arow) (a_course arow)
                      (a_batch_name arow) (strip (a_mode arow)) T h)
           (filter (\<lambda>stu. py_lower py (s_course stu) = py_lower py (a_course arow)
                         \<and> py_lower py (s_batch_name stu) = py_lower py (a_batch_name arow)
                         \<and> py_eq (s_year stu) (a_year arow)
                         \<and> py_lower py (s_mode stu) = py_lower py (strip (a_mode arow)))
              students)"
  using assms
  by (simp add: mail_class_threshold_def mail_assignment_threshold_def Let_def attempts_site
      select_recipients_def send_email_def comp_def elapsed_def)

text \<open>
  A roster of four at the scenario class and at the scenario assignment: the student whose
  fields differ in letter case and the one whose year is the float 2024.0 are mailed; the one
  with a padded mode and the one whose year is the text 2024 are not.
\<close>

theorem recipient_matching_witness:
  "0 \<le> elapsed 36000000000 122400000000 24
   \<and> elapsed 36000000000 122400000000 24 < 600
   \<and> mail_class_key example_py example_class (strip (c_mode example_class)) 24
        \<notin> sent_reminders (fresh :: mstate)
   \<and> mail_assignment_key example_py example_assignment (strip (a_mode example_assignment)) 24
        \<notin> sent_reminders (fresh :: mstate)
   \<and> attempts (mail_class_threshold example_py failing 36000000000
        [example_student, padded_student, text_year_student, float_year_student]
        example_class (strip (c_mode example_class)) 122400000000 24 fresh)
      = [ClassReminder (u ''asha@example.org'') (u ''Asha'') (u ''Intro'') (u ''CS101'') (u ''A'')
           (u ''Online'') 122400000000 24,
         ClassReminder (u ''ben@example.org'') (u ''Ben'') (u ''Intro'') (u ''CS101'') (u ''A'')
           (u ''Online'') 122400000000 24]
   \<and> attempts (mail_assignment_threshold example_py failing 36000000000
        [example_student, padded_student, text_year_student, float_year_student]
        example_assignment (strip (a_mode example_assignment)) 122400000000 24 fresh)
      = [AssignmentReminder (u ''asha@example.org'') (u ''Asha'') (u ''Essay'') (u ''CS101'')
           (u ''A'') (u ''Online'') 122400000000 24,
         AssignmentReminder (u ''ben@example.org'') (u ''Ben'') (u ''Essay'') (u ''CS101'')
           (u ''A'') (u ''Online'') 122400000000 24]"
proof -
  have h1: "0 \<le> elapsed 36000000000 122400000000 24"
    and h2: "elapsed 36000000000 122400000000 24 < 600"
    by (simp_all add: elapsed_def total_seconds_def timedelta_hours_def)
  have h3: "mail_class_key example_py example_class (strip (c_mode example_class)) 24
              \<notin> sent_reminders (fresh :: mstate)"
    and h4: "mail_assignment_key example_py example_assignment
               (strip (a_mode example_assignment)) 24 \<notin> sent_reminders (fresh :: mstate)"
    by (simp_all add: fresh_def)
  from recipient_matching
         [where now = 36000000000 and T = 122400000000 and h = 24 and row = example_class
            and arow = example_assignment and st = fresh and smtp = failing and py = example_py
            and students = "[example_student, padded_student, text_year_student,
                             float_year_student]", OF h1 h2 h3 h4]
       h1 h2 h3 h4
  show ?thesis
    by (simp add: example_defs attempts_def strip_def isspace_def u_def)
qed

text \<open>
  The claim as stated fails on a mode with a blank at its end. A student whose course, batch
  and mode equal the event's up to letter case, with the same year, is not selected when both
  modes are padded, since only the event's mode is stripped; and a student whose mode differs
  from the event's padded mode by more than letter case is selected.
\<close>

theorem recipient_matching_counterexample:
  "py_lower example_py (s_course padded_student) = py_lower example_py (c_course padded_class)
   \<and> py_lower example_py (s_batch_name padded_student)
        = py_lower example_py (c_batch_name padded_class)
   \<and> s_year padded_student = c_year padded_class
   \<and> py_lower example_py (s_mode padded_student) = py_lower example_py (c_mode padded_class)
   \<and> mail_class_row example_py delivering 36000000000 [padded_student] padded_class fresh
      = fresh
   \<and> py_lower example_py (s_mode example_student) \<noteq> py_lower example_py (c_mode padded_class)
   \<and> attempts (mail_class_row example_py delivering 36000000000 [example_student]
        padded_class fresh)
      = [ClassReminder (u ''asha@example.org'') (u ''Asha'') (u ''Intro'') (u ''CS101'') (u ''A'')
           (u ''Online'') 122400000000 24]"
  by (simp add: eval_defs example_defs)

section \<open>No match, no mark\<close>

lemma mail_class_threshold_no_match:
  "select_recipients py students (c_course row) (c_batch_name row) (c_year row) mode = [] \<Longrightarrow>
   mail_class_threshold py smtp now students row mode T h st = st"
  by (simp add: mail_class_threshold_def Let_def)

lemma mail_assignment_threshold_no_match:
  "select_recipients py students (a_course row) (a_batch_name row) (a_year row) mode = [] \<Longrightarrow>
   mail_assignment_threshold py smtp now students row mode T h st = st"
  by (simp add: mail_assignment_threshold_def Let_def)

lemma mail_class_row_no_match:
  "select_recipients py students (c_course row) (c_batch_name row) (c_year row)
     (strip (c_mode row)) = [] \<Longrightarrow>
   mail_class_row py smtp now students row st = st"
  by (simp add: mail_class_row_def Let_def mail_class_threshold_no_match split: option.splits)

lemma mail_assignment_row_no_match:
  "select_recipients py students (a_course row) (a_batch_name row) (a_year row)
     (strip (a_mode row)) = [] \<Longrightarrow>
   mail_assignment_row py smtp now students row st = st"
  by (simp add: mail_assignment_row_def Let_def mail_assignment_threshold_no_match
      split: option.splits)

text \<open>
  Claim C6. In \<^verbatim>\<open>mail_scheduler.py\<close>, when no student matches a class or an assignment,
  the pass over the row changes nothing: no e-mail is handed over and no key is added, whatever
  the clock says. A later pass over the same row in which the window of a threshold is open,
  its key still unsent and a student matches does dispatch that reminder.
\<close>

theorem zero_match_retry:
  "(select_recipients py students (c_course row) (c_batch_name row) (c_year row)
       (strip (c_mode row)) = [] \<longrightarrow>
      mail_class_row py smtp now students row st = st
      \<and> (py_strptime py (c_date row @ u '' '' @ c_time row) = Some T
           \<and> 0 \<le> elapsed now' T 24 \<and> elapsed now' T 24 < 600
           \<and> mail_class_key py row (strip (c_mode row)) 24 \<notin> sent_reminders st
           \<and> select_recipients py students' (c_course row) (c_batch_name row) (c_year row)
                (strip (c_mode row)) \<noteq> []
         \<longrightarrow> fired (mail_class_key py row (strip (c_mode row)) 24) st
               (mail_class_row py smtp' now' students' row
                  (mail_class_row py smtp now students row st)))
      \<and> (py_strptime py (c_date row @ u '' '' @ c_time row) = Some T
           \<and> 0 \<le> elapsed now' T 1 \<and> elapsed now' T 1 < 600
           \<and> mail_class_key py row (strip (c_mode row)) 1 \<notin> sent_reminders st
           \<and> select_recipients py students' (c_course row) (c_batch_name row) (c_year row)
                (strip (c_mode row)) \<noteq> []
         \<longrightarrow> fired (mail_class_key py row (strip (c_mode row)) 1) st
               (mail_class_row py smtp' now' students' row
                  (mail_class_row py smtp now students row st))))
   \<and> (select_recipients py students (a_course arow) (a_batch_name arow) (a_year arow)
       (strip (a_mode arow)) = [] \<longrightarrow>
      mail_assignment_row py smtp now students arow st = st
      \<and> (py_strptime py (due_str arow) = Some T
           \<and> 0 \<le> elapsed now' T 24 \<and> elapsed now' T 24 < 600
           \<and> mail_assignment_key py arow (strip (a_mode arow)) 24 \<notin> sent_reminders st
           \<and> select_recipients py students' (a_course arow) (a_batch_name arow) (a_year arow)
                (strip (a_mode arow)) \<noteq> []
         \<longrightarrow> fired (mail_assignment_key py arow (strip (a_mode arow)) 24) st
               (mail_assignment_row py smtp' now' students' arow
                  (mail_assignment_row py smtp now students arow st)))
      \<and> (py_strptime py (due_str arow) = Some T
           \<and> 0 \<le> elapsed now' T 1 \<and> elapsed now' T 1 < 600
           \<and> mail_assignment_key py arow (strip (a_mode arow)) 1 \<notin> sent_reminders st
           \<and> select_recipients py students' (a_course arow) (a_batch_name arow) (a_year arow)
                (strip (a_mode arow)) \<noteq> []
         \<longrightarrow> fired (mail_assignment_key py arow (strip (a_mode arow)) 1) st
               (mail_assignment_row py smtp' now' students' arow
                  (mail_assignment_row py smtp now students arow st))))"
proof (intro conjI impI)
  assume e: "select_recipients py students (c_course row) (c_batch_name row) (c_year row)
       (strip (c_mode row)) = []"
  show c: "mail_class_row py smtp now students row st = st"
    by (rule mail_class_row_no_match [OF e])
  {
    assume "py_strptime py (c_date row @ u '' '' @ c_time row) = Some T
           \<and> 0 \<le> elapsed now' T 24 \<and> elapsed now' T 24 < 600
           \<and> mail_class_key py row (strip (c_mode row)) 24 \<notin> sent_reminders st
           \<and> select_recipients py students' (c_course row) (c_batch_name row) (c_year row)
                (strip (c_mode row)) \<noteq> []"
    then show "fired (mail_class_key py row (strip (c_mode row)) 24) st
               (mail_class_row py smtp' now' students' row
                  (mail_class_row py smtp now students row st))"
      unfolding c using mail_class_row_fired_24 [of py row T st smtp' now' students'] by blast
  }
  {
    assume "py_strptime py (c_date row @ u '' '' @ c_time row) = Some T
           \<and> 0 \<le> elapsed now' T 1 \<and> elapsed now' T 1 < 600
           \<and> mail_class_key py row (strip (c_mode row)) 1 \<notin> sent_reminders st
           \<and> select_recipients py students' (c_course row) (c_batch_name row) (c_year row)
                (strip (c_mode row)) \<noteq> []"
    then show "fired (mail_class_key py row (strip (c_mode row)) 1) st
               (mail_class_row py smtp' now' students' row
                  (mail_class_row py smtp now students row st))"
      unfolding c using mail_class_row_fired_1 [of py row T st smtp' now' students'] by blast
  }
next
  assume e: "select_recipients py students (a_course arow) (a_batch_name arow) (a_year arow)
       (strip (a_mode arow)) = []"
  show c: "mail_assignment_row py smtp now students arow st = st"
    by (rule mail_assignment_row_no_match [OF e])
  {
    assume "py_strptime py (due_str arow) = Some T
           \<and> 0 \<le> elapsed now' T 24 \<and> elapsed now' T 24 < 600
           \<and> mail_assignment_key py arow (strip (a_mode arow)) 24 \<notin> sent_reminders st
           \<and> select_recipients py students' (a_course arow) (a_batch_name arow) (a_year arow)
                (strip (a_mode arow)) \<noteq> []"
    then show "fired (mail_assignment_key py arow (strip (a_mode arow)) 24) st
               (mail_assignment_row py smtp' now' students' arow
                  (mail_assignment_row py smtp now students arow st))"
      unfolding c using mail_assignment_row_fired_24 [of py arow T st smtp' now' students']
      by blast
  }
  {
    assume "py_strptime py (due_str arow) = Some T
           \<and> 0 \<le> elapsed now' T 1 \<and> elapsed now' T 1 < 600
           \<and> mail_assignment_key py arow (strip (a_mode arow)) 1 \<notin> sent_reminders st
           \<and> select_recipients py students' (a_course arow) (a_batch_name arow) (a_year arow)
                (strip (a_mode arow)) \<noteq> []"
    then show "fired (mail_assignment_key py arow (strip (a_mode arow)) 1) st
               (mail_assignment_row py smtp' now' students' arow
                  (mail_assignment_row py smtp now students arow st))"
      unfolding c using mail_assignment_row_fired_1 [of py arow T st smtp' now' students']
      by blast
  }
qed

text \<open>
  The scenario class and the scenario assignment with a roster of one student whose year is the
  text 2024, which equals no number, then a minute later with one matching student.
\<close>

theorem zero_match_retry_witness:
  "select_recipients example_py [text_year_student] (c_course example_class)
      (c_batch_name example_class) (c_year example_class) (strip (c_mode example_class)) = []
   \<and> select_recipients example_py [text_year_student] (a_course example_assignment)
      (a_batch_name example_assignment) (a_year example_assignment)
      (strip (a_mode example_assignment)) = []
   \<and> py_strptime example_py (c_date example_class @ u '' '' @ c_time example_class)
      = Some 122400000000
   \<and> 0 \<le> elapsed 36060000000 122400000000 24 \<and> elapsed 36060000000 122400000000 24 < 600
   \<and> mail_class_key example_py example_class (strip (c_mode example_class)) 24
        \<notin> sent_reminders (fresh :: mstate)
   \<and> select_recipients example_py [example_student] (c_course example_class)
      (c_batch_name example_class) (c_year example_class) (strip (c_mode example_class)) \<noteq> []
   \<and> mail_class_row example_py delivering 36000000000 [text_year_student] example_class fresh
      = fresh
   \<and> fired (mail_class_key example_py example_class (strip (c_mode example_class)) 24) fresh
        (mail_class_row example_py delivering 36060000000 [example_student] example_class
           (mail_class_row example_py delivering 36000000000 [text_year_student] example_class
              fresh))
   \<and> py_strptime example_py (due_str example_assignment) = Some 5562000000000
   \<and> 0 \<le> elapsed 5558460000000 5562000000000 1 \<and> elapsed 5558460000000 5562000000000 1 < 600
   \<and> mail_assignment_key example_py example_assignment (strip (a_mode example_assignment)) 1
        \<notin> sent_reminders (fresh :: mstate)
   \<and> select_recipients example_py [example_student] (a_course example_assignment)
      (a_batch_name example_assignment) (a_year example_assignment)
      (strip (a_mode example_assignment)) \<noteq> []
   \<and> mail_assignment_row example_py delivering 5558400000000 [text_year_student]
        example_assignment fresh = fresh
   \<and> fired (mail_assignment_key example_py example_assignment
               (strip (a_mode example_assignment)) 1) fresh
        (mail_assignment_row example_py delivering 5558460000000 [example_student]
           example_assignment
           (mail_assignment_row example_py delivering 5558400000000 [text_year_student]
              example_assignment fresh))"
proof -
  have z: "select_recipients example_py [text_year_student] (c_course example_class)
      (c_batch_name example_class) (c_year example_class) (strip (c_mode example_class)) = []"
    and za: "select_recipients example_py [text_year_student] (a_course example_assignment)
      (a_batch_name example_assignment) (a_year example_assignment)
      (strip (a_mode example_assignment)) = []"
    by (simp_all add: example_defs select_recipients_def)
  have pc: "py_strptime example_py (c_date example_class @ u '' '' @ c_time example_class)
      = Some 122400000000
     \<and> 0 \<le> elapsed 36060000000 122400000000 24 \<and> elapsed 36060000000 122400000000 24 < 600
     \<and> mail_class_key example_py example_class (strip (c_mode example_class)) 24
          \<notin> sent_reminders (fresh :: mstate)
     \<and> select_recipients example_py [example_student] (c_course example_class)
        (c_batch_name example_class) (c_year example_class) (strip (c_mode example_class)) \<noteq> []"
    by (simp add: example_defs select_recipients_def elapsed_def total_seconds_def
        timedelta_hours_def strip_def isspace_def u_def)
  have pa: "py_strptime example_py (due_str example_assignment) = Some 5562000000000
     \<and> 0 \<le> elapsed 5558460000000 5562000000000 1
     \<and> elapsed 5558460000000 5562000000000 1 < 600
     \<and> mail_assignment_key example_py example_assignment (strip (a_mode example_assignment)) 1
          \<notin> sent_reminders (fresh :: mstate)
     \<and> select_recipients example_py [example_student] (a_course example_assignment)
        (a_batch_name example_assignment) (a_year example_assignment)
        (strip (a_mode example_assignment)) \<noteq> []"
    by (simp add: example_defs select_recipients_def elapsed_def total_seconds_def
        timedelta_hours_def strip_def isspace_def u_def due_str_def)
  note c = zero_match_retry
      [where py = example_py and students = "[text_year_student]" and row = example_class
         and smtp = delivering and now = 36000000000 and st = fresh and T = 122400000000
         and now' = 36060000000 and students' = "[example_student]" and smtp' = delivering,
       THEN conjunct1, THEN mp, OF z]
  note a = zero_match_retry
      [where py = example_py and students = "[text_year_student]" and arow = example_assignment
         and smtp = delivering and now = 5558400000000 and st = fresh and T = 5562000000000
         and now' = 5558460000000 and students' = "[example_student]" and smtp' = delivering,
       THEN conjunct2, THEN mp, OF za]
  note w = c [THEN conjunct1] c [THEN conjunct2, THEN conjunct1, THEN mp, OF pc]
    a [THEN conjunct1] a [THEN conjunct2, THEN conjunct2, THEN mp, OF pa]
  from z za pc pa w show ?thesis by (intro conjI) simp_all
qed

section \<open>Attempted is sent\<close>













section \<open>Start-up\<close>

text \<open>
  Claim C8, as amended. \<^verbatim>\<open>discord_notifier.py\<close> raises before its loop is entered when
  \<^verbatim>\<open>DISCORD_TOKEN\<close>, \<^verbatim>\<open>DISCORD_CHANNEL_ID\<close> or \<^verbatim>\<open>DB_PATH\<close> is absent (a
  \<^verbatim>\<open>TypeError\<close> from \<^verbatim>\<open>int(None)\<close> when the channel id is the absent one, a
  \<^verbatim>\<open>ValueError\<close> otherwise). \<^verbatim>\<open>mail_scheduler.py\<close> raises \<^verbatim>\<open>ValueError\<close> before its
  loop when \<^verbatim>\<open>SENDER_EMAIL\<close> or \<^verbatim>\<open>SENDER_PASS\<close> is absent. An absent \<^verbatim>\<open>DB_PATH\<close> is
  not an error there: the built-in default path is taken.
\<close>

theorem startup_configuration:
  "(environ ''DISCORD_TOKEN'' = None \<or> environ ''DISCORD_CHANNEL_ID'' = None
      \<or> environ ''DB_PATH'' = None
    \<longrightarrow> discord_program int_of py environ sent_log channel envs =
          StartupError (if environ ''DISCORD_CHANNEL_ID'' = None then TypeError else ValueError))
   \<and> (environ ''SENDER_EMAIL'' = None \<or> environ ''SENDER_PASS'' = None
    \<longrightarrow> mail_program py environ menvs = StartupError ValueError)
   \<and> (environ ''DB_PATH'' = None \<and> environ ''SENDER_EMAIL'' = Some e \<and> e \<noteq> []
        \<and> environ ''SENDER_PASS'' = Some p \<and> p \<noteq> []
    \<longrightarrow> mail_config environ =
          Inr \<lparr>M_DB_PATH = default_db_path, SENDER_EMAIL = e, SENDER_PASS = p\<rparr>)"
  by (auto simp: discord_program_def discord_config_def mail_program_def mail_config_def
      falsy_def Let_def split: option.splits)

text \<open>
  An environment with the two sender variables only, and the empty environment.
\<close>

theorem startup_configuration_witness:
  "example_environ ''DISCORD_TOKEN'' = None
   \<and> discord_program example_int example_py example_environ None True [example_denv]
        = StartupError TypeError
   \<and> Map.empty ''SENDER_EMAIL'' = (None :: string option)
   \<and> mail_program example_py Map.empty [example_menv] = StartupError ValueError
   \<and> example_environ ''DB_PATH'' = None
   \<and> example_environ ''SENDER_EMAIL'' = Some ''reminders@example.org''
   \<and> example_environ ''SENDER_PASS'' = Some ''secret''
   \<and> mail_config example_environ =
        Inr \<lparr>M_DB_PATH = default_db_path, SENDER_EMAIL = ''reminders@example.org'',
             SENDER_PASS = ''secret''\<rparr>"
  using startup_configuration
          [where environ = example_environ and int_of = example_int
             and py = example_py and sent_log = None and channel = True
             and envs = "[example_denv]" and e = "''reminders@example.org''"
             and p = "''secret''"]
        startup_configuration
          [where environ = Map.empty and py = example_py
             and menvs = "[example_menv]"]
  by (simp add: example_environ_def)

text \<open>
  The claim as stated fails on \<^verbatim>\<open>mail_scheduler.py\<close>: with the data-store location absent
  from the environment the program starts, and its first pass sends the scenario reminder.
\<close>

theorem startup_configuration_counterexample:
  "example_environ ''DB_PATH'' = None
   \<and> mail_program example_py example_environ [example_menv] =
        Loop [None]
          \<lparr>sent_reminders = {u ''class-CS101-A-2024-Online-Intro-24''},
           dispatches =
             [(u ''class-CS101-A-2024-Online-Intro-24'',
               [(ClassReminder (u ''asha@example.org'') (u ''Asha'') (u ''Intro'') (u ''CS101'')
                   (u ''A'') (u ''Online'') 122400000000 24, True)])]\<rparr>"
  by (simp add: mail_program_def mail_config_def falsy_def example_environ_def eval_defs
      example_defs)

section \<open>A failing pass\<close>

text \<open>
  Claim C9. In \<^verbatim>\<open>discord_notifier.py\<close> the two queries and \<^verbatim>\<open>save_sent_log\<close> stand
  outside every \<^verbatim>\<open>try\<close>. A pass in which the query for the classes raises, or in which
  writing the ledger file raises, ends the loop: the pass after it, in which the scenario
  reminder is due, is never entered, although the same pass alone dispatches it. The loop of
  \<^verbatim>\<open>mail_scheduler.py\<close> catches the exception of such a pass and enters the next one, which
  sends the reminder.
\<close>

theorem discord_loop_ends_on_tick_failure:
  "check_and_send_reminders example_py [db_down_denv, example_denv] fresh
     = ([Some DatabaseError], fresh)
   \<and> check_and_send_reminders example_py [disk_full_denv, example_denv] fresh
     = ([Some OSError], fresh)
   \<and> check_and_send_reminders example_py [example_denv] fresh
     = ([None],
        \<lparr>sent_reminders = {u ''class-CS101-A-Intro-2024-01-02-24hr''},
         dispatches = [(u ''class-CS101-A-Intro-2024-01-02-24hr'',
                        ClassTomorrow (u ''10:00'') (u ''Intro'') (u ''CS101'') (u ''A''),
                        True)]\<rparr>)
   \<and> mail_loop example_py [db_down_menv, example_menv] fresh
     = ([Some DatabaseError, None],
        \<lparr>sent_reminders = {u ''class-CS101-A-2024-Online-Intro-24''},
         dispatches =
           [(u ''class-CS101-A-2024-Online-Intro-24'',
             [(ClassReminder (u ''asha@example.org'') (u ''Asha'') (u ''Intro'') (u ''CS101'')
                 (u ''A'') (u ''Online'') 122400000000 24, True)])]\<rparr>)"
  by (simp add: eval_defs example_defs)

section \<open>The ledger file read back\<close>

lemma LF_neq_CR [simp]: "LF \<noteq> CR" "CR \<noteq> LF"
  by (simp_all add: LF_def CR_def)

lemma isspace_LF [simp]: "isspace LF"
  by (simp add: isspace_def LF_def)














end
